theory Spec2Isabelle
  imports Main "HOL-Library.Sublist"
begin

section \<open>The upgrade store (stores/upgradeStore)\<close>

text \<open>
  The type \<open>UpgradeReason\<close> of the store is a union of twelve string literals. The
  constructors carry the literal's name with a capital initial, since the snapshot record
  of the hook further down has fields called \<open>leads_limit\<close>, \<open>sso\<close> and so on.
\<close>

datatype UpgradeReason =
    Leads_limit
  | Agents_limit
  | Campaigns_limit
  | Whatsapp
  | Whatsapp_official
  | Advanced_filters
  | Funnel_reports
  | Campaign_comparison
  | Crm_integration
  | Priority_support
  | Sso
  | General

text \<open>
  Plan names are JavaScript strings at run time (\<open>getNextPlan\<close> and
  \<open>getSuggestedPlan\<close> take \<open>currentPlan: string\<close>), so they are strings here.
\<close>

fun MINIMUM_PLAN_FOR_FEATURE :: "UpgradeReason \<Rightarrow> string" where
  "MINIMUM_PLAN_FOR_FEATURE Leads_limit = ''starter''"
| "MINIMUM_PLAN_FOR_FEATURE Agents_limit = ''starter''"
| "MINIMUM_PLAN_FOR_FEATURE Campaigns_limit = ''starter''"
| "MINIMUM_PLAN_FOR_FEATURE Whatsapp = ''starter''"
| "MINIMUM_PLAN_FOR_FEATURE Whatsapp_official = ''pro''"
| "MINIMUM_PLAN_FOR_FEATURE Advanced_filters = ''starter''"
| "MINIMUM_PLAN_FOR_FEATURE Funnel_reports = ''starter''"
| "MINIMUM_PLAN_FOR_FEATURE Campaign_comparison = ''pro''"
| "MINIMUM_PLAN_FOR_FEATURE Crm_integration = ''pro''"
| "MINIMUM_PLAN_FOR_FEATURE Priority_support = ''scale''"
| "MINIMUM_PLAN_FOR_FEATURE Sso = ''scale''"
| "MINIMUM_PLAN_FOR_FEATURE General = ''starter''"

definition planOrder :: "string list" where
  "planOrder = [''free'', ''starter'', ''pro'', ''scale'']"

text \<open>\<open>Array.prototype.indexOf\<close>: the first position of the element, \<open>-1\<close> when absent.\<close>

fun indexOf_from :: "'a list \<Rightarrow> 'a \<Rightarrow> int \<Rightarrow> int" where
  "indexOf_from [] x i = - 1"
| "indexOf_from (y # ys) x i = (if y = x then i else indexOf_from ys x (i + 1))"

definition indexOf :: "'a list \<Rightarrow> 'a \<Rightarrow> int" where
  "indexOf xs x = indexOf_from xs x 0"

text \<open>\<open>None\<close> is the \<open>null\<close> of the source: top plan, or a name that is no plan.\<close>

definition getNextPlan :: "string \<Rightarrow> string option" where
  "getNextPlan currentPlan =
     (let currentIndex = indexOf planOrder currentPlan
      in if currentIndex = - 1 \<or> currentIndex \<ge> int (length planOrder) - 1
         then None
         else Some (planOrder ! nat (currentIndex + 1)))"

definition getSuggestedPlan :: "string \<Rightarrow> UpgradeReason \<Rightarrow> string" where
  "getSuggestedPlan currentPlan reason =
     (let nextPlan = getNextPlan currentPlan;
          minimumPlan = MINIMUM_PLAN_FOR_FEATURE reason
      in case nextPlan of
           None \<Rightarrow> ''scale''
         | Some np \<Rightarrow>
             (let nextPlanIndex = indexOf planOrder np;
                  minimumPlanIndex = indexOf planOrder minimumPlan
              in if nextPlanIndex \<ge> minimumPlanIndex then np else minimumPlan))"

text \<open>The ordinal of a tier is its position in the tier sequence.\<close>

definition ordinal :: "string \<Rightarrow> int" where
  "ordinal tier = indexOf planOrder tier"

text \<open>
  The context handed to the modal. Optional fields of the interface are options;
  \<open>None\<close> is \<open>undefined\<close>.
\<close>

record UpgradeContext =
  reason :: UpgradeReason
  currentValue :: "int option"
  limitValue :: "int option"
  featureName :: "string option"
  suggestedPlan :: "string option"
  customMessage :: "string option"

text \<open>The data part of the zustand store; its actions are the functions below, each
  returning the store after the call to \<open>set\<close>.\<close>

record UpgradeState =
  isOpen :: bool
  modalContext :: "UpgradeContext option"

definition initialUpgradeState :: UpgradeState where
  "initialUpgradeState = \<lparr>isOpen = False, modalContext = None\<rparr>"

text \<open>\<open>a || b\<close> on an optional string: \<open>undefined\<close> and the empty string are falsy.\<close>

definition or_else :: "string option \<Rightarrow> string \<Rightarrow> string" where
  "or_else a b = (case a of None \<Rightarrow> b | Some s \<Rightarrow> if s = [] then b else s)"

definition openUpgradeModal :: "UpgradeContext \<Rightarrow> UpgradeState \<Rightarrow> UpgradeState" where
  "openUpgradeModal c st =
     st\<lparr>isOpen := True,
        modalContext := Some (c\<lparr>suggestedPlan :=
          Some (or_else (suggestedPlan c) (MINIMUM_PLAN_FOR_FEATURE (reason c)))\<rparr>)\<rparr>"

definition closeUpgradeModal :: "UpgradeState \<Rightarrow> UpgradeState" where
  "closeUpgradeModal st = st\<lparr>isOpen := False, modalContext := None\<rparr>"

definition showLeadsLimitReached :: "int \<Rightarrow> int \<Rightarrow> UpgradeState \<Rightarrow> UpgradeState" where
  "showLeadsLimitReached used limit st =
     st\<lparr>isOpen := True,
        modalContext := Some \<lparr>reason = Leads_limit, currentValue = Some used,
          limitValue = Some limit, featureName = None, suggestedPlan = Some ''starter'',
          customMessage = None\<rparr>\<rparr>"

definition showAgentsLimitReached :: "int \<Rightarrow> int \<Rightarrow> UpgradeState \<Rightarrow> UpgradeState" where
  "showAgentsLimitReached used limit st =
     st\<lparr>isOpen := True,
        modalContext := Some \<lparr>reason = Agents_limit, currentValue = Some used,
          limitValue = Some limit, featureName = None, suggestedPlan = Some ''pro'',
          customMessage = None\<rparr>\<rparr>"

definition showCampaignsLimitReached :: "int \<Rightarrow> int \<Rightarrow> UpgradeState \<Rightarrow> UpgradeState" where
  "showCampaignsLimitReached used limit st =
     st\<lparr>isOpen := True,
        modalContext := Some \<lparr>reason = Campaigns_limit, currentValue = Some used,
          limitValue = Some limit, featureName = None, suggestedPlan = Some ''starter'',
          customMessage = None\<rparr>\<rparr>"

definition showFeatureRequired :: "string \<Rightarrow> string \<Rightarrow> UpgradeState \<Rightarrow> UpgradeState" where
  "showFeatureRequired fname plan st =
     st\<lparr>isOpen := True,
        modalContext := Some \<lparr>reason = General, currentValue = None, limitValue = None,
          featureName = Some fname, suggestedPlan = Some plan, customMessage = None\<rparr>\<rparr>"

section \<open>Strings of the client\<close>

text \<open>
  Messages and keywords are strings of 8-bit characters read as Latin-1 code points, the
  alphabet of the Portuguese texts of the application. The accented letters are written
  by code point.
\<close>

abbreviation a_acute :: char where "a_acute \<equiv> CHR 0xE1"
abbreviation a_tilde :: char where "a_tilde \<equiv> CHR 0xE3"
abbreviation c_cedilla :: char where "c_cedilla \<equiv> CHR 0xE7"
abbreviation e_circumflex :: char where "e_circumflex \<equiv> CHR 0xEA"
abbreviation i_acute :: char where "i_acute \<equiv> CHR 0xED"
abbreviation o_acute :: char where "o_acute \<equiv> CHR 0xF3"
abbreviation o_tilde :: char where "o_tilde \<equiv> CHR 0xF5"

text \<open>
  \<open>String.prototype.toLowerCase\<close> on this range: the capitals are \<open>A\<close> to \<open>Z\<close>
  (65 to 90) and the accented capitals 192 to 222 without the multiplication sign 215;
  each has its small letter 32 places further on. Every other character is unchanged.
\<close>

definition toLowerChar :: "char \<Rightarrow> char" where
  "toLowerChar c =
     (let n = (of_char c :: nat)
      in if (65 \<le> n \<and> n \<le> 90) \<or> (192 \<le> n \<and> n \<le> 214) \<or> (216 \<le> n \<and> n \<le> 222)
         then char_of (n + 32) else c)"

definition toLowerCase :: "string \<Rightarrow> string" where
  "toLowerCase s = map toLowerChar s"

text \<open>
  \<open>toUpperCase\<close> of one character, as \<open>checkFeature\<close> applies it to the initial of a
  plan name: small letters 97 to 122 and 224 to 254 without the division sign 247 move 32
  places back. The sharp s, the micro sign and y with diaeresis, whose capitals are not
  single 8-bit characters, do not occur in a plan name and are left as they are.
\<close>

definition toUpperChar :: "char \<Rightarrow> char" where
  "toUpperChar c =
     (let n = (of_char c :: nat)
      in if (97 \<le> n \<and> n \<le> 122) \<or> (224 \<le> n \<and> n \<le> 246) \<or> (248 \<le> n \<and> n \<le> 254)
         then char_of (n - 32) else c)"

text \<open>\<open>s.charAt(0).toUpperCase() + s.slice(1)\<close>; \<open>charAt(0)\<close> of the empty string is
  the empty string.\<close>

definition capitalize :: "string \<Rightarrow> string" where
  "capitalize s = (case s of [] \<Rightarrow> [] | c # cs \<Rightarrow> toUpperChar c # cs)"

text \<open>\<open>String.prototype.includes\<close>: the keyword starts at some position of the text.\<close>

fun starts_with :: "string \<Rightarrow> string \<Rightarrow> bool" where
  "starts_with s [] = True"
| "starts_with [] (k # ks) = False"
| "starts_with (c # cs) (k # ks) = (c = k \<and> starts_with cs ks)"

fun includes_str :: "string \<Rightarrow> string \<Rightarrow> bool" where
  "includes_str [] k = (k = [])"
| "includes_str (c # cs) k = (starts_with (c # cs) k \<or> includes_str cs k)"

section \<open>The HTTP client (lib/api)\<close>

text \<open>
  \<open>ERROR_TO_UPGRADE_REASON\<close> is an object literal whose keys are no array indices, so
  \<open>Object.entries\<close> lists it in the order it is written: an association list.
\<close>

definition ERROR_TO_UPGRADE_REASON :: "(string \<times> UpgradeReason) list" where
  "ERROR_TO_UPGRADE_REASON =
     [(''limite de leads'', Leads_limit),
      (''limite de prospects'', Leads_limit),
      (''limite de agentes'', Agents_limit),
      (''limite de campanhas'', Campaigns_limit),
      (''whatsapp'', Whatsapp),
      (''api oficial'', Whatsapp_official),
      (''filtros avan'' @ [c_cedilla] @ ''ados'', Advanced_filters),
      (''relat'' @ [o_acute] @ ''rios de funil'', Funnel_reports),
      (''funil'', Funnel_reports),
      (''compara'' @ [c_cedilla, a_tilde] @ ''o de campanhas'', Campaign_comparison),
      (''comparativo'', Campaign_comparison),
      (''integra'' @ [c_cedilla, a_tilde] @ ''o crm'', Crm_integration),
      (''crm'', Crm_integration),
      (''suporte priorit'' @ [a_acute] @ ''rio'', Priority_support),
      (''sso'', Sso)]"

text \<open>The \<open>for\<close> loop over the entries: the first keyword found in the message decides.\<close>

fun detect_loop :: "(string \<times> UpgradeReason) list \<Rightarrow> string \<Rightarrow> UpgradeReason" where
  "detect_loop [] lowerMessage = General"
| "detect_loop ((keyword, r) # entries) lowerMessage =
     (if includes_str lowerMessage keyword then r else detect_loop entries lowerMessage)"

definition detectUpgradeReason :: "string \<Rightarrow> UpgradeReason" where
  "detectUpgradeReason errorMessage =
     (let lowerMessage = toLowerCase errorMessage
      in detect_loop ERROR_TO_UPGRADE_REASON lowerMessage)"

text \<open>
  What the classification is meant to decide, in the words of its description: the keyword
  occurs in the text when letter case is ignored on both sides.
\<close>

definition occurs_ignoring_case :: "string \<Rightarrow> string \<Rightarrow> bool" where
  "occurs_ignoring_case keyword txt = sublist (toLowerCase keyword) (toLowerCase txt)"

text \<open>
  The branch of the response interceptor for status 403. Its argument is the \<open>detail\<close>
  field of the response body, absent (\<open>None\<close>) when the body has none;
  \<open>detail || ''\<close> turns that into the empty string.
\<close>

definition on_forbidden :: "string option \<Rightarrow> UpgradeState \<Rightarrow> UpgradeState" where
  "on_forbidden body_detail st =
     (let detail = or_else body_detail [];
          r = detectUpgradeReason detail
      in openUpgradeModal
           \<lparr>reason = r, currentValue = None, limitValue = None, featureName = None,
            suggestedPlan = Some (MINIMUM_PLAN_FOR_FEATURE r),
            customMessage = Some detail\<rparr> st)"

section \<open>The plan-limits hook (hooks/usePlanLimits)\<close>

text \<open>
  The usage snapshot fetched from \<open>/dashboard/usage-limits\<close>. Its numbers are counts,
  hence integers; \<open>-1\<close> is the limit that means unlimited.
\<close>

record UsageLimits =
  plan_tier :: string
  leads_limit :: int
  leads_used :: int
  leads_remaining :: int
  agents_limit :: int
  agents_used :: int
  agents_remaining :: int
  campaigns_limit :: int
  campaigns_used :: int
  campaigns_remaining :: int
  whatsapp_enabled :: bool
  whatsapp_official_api :: bool
  advanced_filters :: bool
  funnel_reports :: bool
  campaign_comparison :: bool
  crm_integration :: bool
  priority_support :: bool
  sso :: bool

text \<open>The state \<open>usageLimits\<close> of the hook is \<open>UsageLimits | null\<close>: an option, \<open>None\<close>
  until the snapshot has loaded.\<close>

definition canCreateLead :: "UsageLimits option \<Rightarrow> bool" where
  "canCreateLead usageLimits =
     (case usageLimits of
        None \<Rightarrow> True
      | Some u \<Rightarrow> if leads_limit u = - 1 then True else leads_used u < leads_limit u)"

definition canCreateAgent :: "UsageLimits option \<Rightarrow> bool" where
  "canCreateAgent usageLimits =
     (case usageLimits of
        None \<Rightarrow> True
      | Some u \<Rightarrow> if agents_limit u = - 1 then True else agents_used u < agents_limit u)"

definition canCreateCampaign :: "UsageLimits option \<Rightarrow> bool" where
  "canCreateCampaign usageLimits =
     (case usageLimits of
        None \<Rightarrow> True
      | Some u \<Rightarrow>
          if campaigns_limit u = - 1 then True else campaigns_used u < campaigns_limit u)"

text \<open>The checks that raise the modal return their boolean together with the store.\<close>

definition checkLeadsLimit :: "UsageLimits option \<Rightarrow> UpgradeState \<Rightarrow> bool \<times> UpgradeState" where
  "checkLeadsLimit usageLimits st =
     (case usageLimits of
        None \<Rightarrow> (True, st)
      | Some u \<Rightarrow>
          if leads_limit u = - 1 then (True, st)
          else if leads_used u \<ge> leads_limit u
            then (False, showLeadsLimitReached (leads_used u) (leads_limit u) st)
            else (True, st))"

definition checkAgentsLimit :: "UsageLimits option \<Rightarrow> UpgradeState \<Rightarrow> bool \<times> UpgradeState" where
  "checkAgentsLimit usageLimits st =
     (case usageLimits of
        None \<Rightarrow> (True, st)
      | Some u \<Rightarrow>
          if agents_limit u = - 1 then (True, st)
          else if agents_used u \<ge> agents_limit u
            then (False, showAgentsLimitReached (agents_used u) (agents_limit u) st)
            else (True, st))"

definition checkCampaignsLimit :: "UsageLimits option \<Rightarrow> UpgradeState \<Rightarrow> bool \<times> UpgradeState" where
  "checkCampaignsLimit usageLimits st =
     (case usageLimits of
        None \<Rightarrow> (True, st)
      | Some u \<Rightarrow>
          if campaigns_limit u = - 1 then (True, st)
          else if campaigns_used u \<ge> campaigns_limit u
            then (False, showCampaignsLimitReached (campaigns_used u) (campaigns_limit u) st)
            else (True, st))"

text \<open>
  \<open>checkFeature\<close> takes any key of the snapshot and tests the field for truthiness, so
  the keys and the three kinds of field value are written out.
\<close>

datatype UsageLimitsKey =
    Key_plan_tier
  | Key_leads_limit | Key_leads_used | Key_leads_remaining
  | Key_agents_limit | Key_agents_used | Key_agents_remaining
  | Key_campaigns_limit | Key_campaigns_used | Key_campaigns_remaining
  | Key_whatsapp_enabled | Key_whatsapp_official_api | Key_advanced_filters
  | Key_funnel_reports | Key_campaign_comparison | Key_crm_integration
  | Key_priority_support | Key_sso

datatype field_value = Str string | Num int | Boolean bool

fun field_of :: "UsageLimits \<Rightarrow> UsageLimitsKey \<Rightarrow> field_value" where
  "field_of u Key_plan_tier = Str (plan_tier u)"
| "field_of u Key_leads_limit = Num (leads_limit u)"
| "field_of u Key_leads_used = Num (leads_used u)"
| "field_of u Key_leads_remaining = Num (leads_remaining u)"
| "field_of u Key_agents_limit = Num (agents_limit u)"
| "field_of u Key_agents_used = Num (agents_used u)"
| "field_of u Key_agents_remaining = Num (agents_remaining u)"
| "field_of u Key_campaigns_limit = Num (campaigns_limit u)"
| "field_of u Key_campaigns_used = Num (campaigns_used u)"
| "field_of u Key_campaigns_remaining = Num (campaigns_remaining u)"
| "field_of u Key_whatsapp_enabled = Boolean (whatsapp_enabled u)"
| "field_of u Key_whatsapp_official_api = Boolean (whatsapp_official_api u)"
| "field_of u Key_advanced_filters = Boolean (advanced_filters u)"
| "field_of u Key_funnel_reports = Boolean (funnel_reports u)"
| "field_of u Key_campaign_comparison = Boolean (campaign_comparison u)"
| "field_of u Key_crm_integration = Boolean (crm_integration u)"
| "field_of u Key_priority_support = Boolean (priority_support u)"
| "field_of u Key_sso = Boolean (sso u)"

fun truthy :: "field_value \<Rightarrow> bool" where
  "truthy (Str s) = (s \<noteq> [])"
| "truthy (Num n) = (n \<noteq> 0)"
| "truthy (Boolean b) = b"

definition checkFeature ::
  "UsageLimits option \<Rightarrow> UsageLimitsKey \<Rightarrow> string \<Rightarrow> string \<Rightarrow> UpgradeState \<Rightarrow> bool \<times> UpgradeState"
where
  "checkFeature usageLimits feature fname plan st =
     (case usageLimits of
        None \<Rightarrow> (True, st)
      | Some u \<Rightarrow>
          (let hasFeature = field_of u feature
           in if \<not> truthy hasFeature
              then (False, openUpgradeModal
                \<lparr>reason = General, currentValue = None, limitValue = None,
                 featureName = Some fname, suggestedPlan = Some plan,
                 customMessage = Some (fname @ '' n'' @ [a_tilde] @ ''o est'' @ [a_acute]
                   @ '' dispon'' @ [i_acute] @ ''vel no seu plano atual. Fa'' @ [c_cedilla]
                   @ ''a upgrade para '' @ capitalize plan @ '' ou superior.'')\<rparr> st)
              else (True, st)))"

definition checkWhatsApp :: "UsageLimits option \<Rightarrow> UpgradeState \<Rightarrow> bool \<times> UpgradeState" where
  "checkWhatsApp usageLimits st =
     checkFeature usageLimits Key_whatsapp_enabled ''WhatsApp'' ''starter'' st"

definition checkWhatsAppOfficial :: "UsageLimits option \<Rightarrow> UpgradeState \<Rightarrow> bool \<times> UpgradeState" where
  "checkWhatsAppOfficial usageLimits st =
     checkFeature usageLimits Key_whatsapp_official_api ''API Oficial do WhatsApp'' ''pro'' st"

definition checkAdvancedFilters :: "UsageLimits option \<Rightarrow> UpgradeState \<Rightarrow> bool \<times> UpgradeState" where
  "checkAdvancedFilters usageLimits st =
     checkFeature usageLimits Key_advanced_filters
       (''Filtros Avan'' @ [c_cedilla] @ ''ados'') ''starter'' st"

section \<open>The lead-packages hook (useLeadLimits)\<close>

text \<open>
  The summary fetched from \<open>/lead-packages/usage\<close>, the one place of the client that
  names purchased packages. (Its untyped list \<open>active_packages\<close> is read nowhere and is
  left out.) The hook hands the server's fields on; \<open>??\<close> supplies the value used
  before the summary has loaded.
\<close>

record LeadUsageSummary =
  plan_name :: string
  plan_monthly_limit :: int
  leads_used_this_month :: int
  leads_from_plan :: int
  leads_from_packages :: int
  total_available :: int
  total_remaining :: int
  usage_percentage :: int
  is_limit_reached :: bool
  campaigns_paused :: bool

definition isLimitReached :: "LeadUsageSummary option \<Rightarrow> bool" where
  "isLimitReached usage = (case usage of None \<Rightarrow> False | Some s \<Rightarrow> is_limit_reached s)"

definition remainingLeads :: "LeadUsageSummary option \<Rightarrow> int" where
  "remainingLeads usage = (case usage of None \<Rightarrow> 0 | Some s \<Rightarrow> total_remaining s)"

section \<open>The plan catalog (plan selection modal)\<close>

text \<open>The fourteen feature names of the catalog.\<close>

abbreviation Busca_Google :: string where
  "Busca_Google \<equiv> ''Busca Google (Localiza'' @ [c_cedilla, a_tilde] @ ''o/Nicho)''"
abbreviation Busca_Instagram :: string where
  "Busca_Instagram \<equiv> ''Busca Instagram (Seguidores/Atividade)''"
abbreviation Filtros_Avancados :: string where
  "Filtros_Avancados \<equiv>
     ''Filtros Avan'' @ [c_cedilla] @ ''ados de Qualifica'' @ [c_cedilla, a_tilde] @ ''o''"
abbreviation Instagram_Direct :: string where
  "Instagram_Direct \<equiv> ''Instagram Direct''"
abbreviation WhatsApp_Simulacao :: string where
  "WhatsApp_Simulacao \<equiv> ''WhatsApp (Simula'' @ [c_cedilla, a_tilde] @ ''o)''"
abbreviation WhatsApp_API_Oficial :: string where
  "WhatsApp_API_Oficial \<equiv> ''WhatsApp Business API Oficial''"
abbreviation Dashboard_Basico :: string where
  "Dashboard_Basico \<equiv> ''Dashboard B'' @ [a_acute] @ ''sico''"
abbreviation Historico_Interacoes :: string where
  "Historico_Interacoes \<equiv>
     ''Hist'' @ [o_acute] @ ''rico de Intera'' @ [c_cedilla, o_tilde] @ ''es''"
abbreviation Relatorios_Funil :: string where
  "Relatorios_Funil \<equiv> ''Relat'' @ [o_acute] @ ''rios de Funil''"
abbreviation Comparativo_Campanhas :: string where
  "Comparativo_Campanhas \<equiv> ''Comparativo de Campanhas''"
abbreviation Integracao_CRM :: string where
  "Integracao_CRM \<equiv> ''Integra'' @ [c_cedilla, a_tilde] @ ''o com CRM''"
abbreviation Suporte_Email :: string where
  "Suporte_Email \<equiv> ''Suporte por Email''"
abbreviation Suporte_Prioritario :: string where
  "Suporte_Prioritario \<equiv> ''Suporte Priorit'' @ [a_acute] @ ''rio''"
abbreviation SSO_Single_Sign_On :: string where
  "SSO_Single_Sign_On \<equiv> ''SSO (Single Sign-On)''"

text \<open>
  A plan of the catalog: its id, its feature list (name and \<open>included\<close>) and its three
  limits, which the catalog holds as display texts. The fields that only dress the card
  (name, price, price label, description, icon, popular) are read by no function here and
  are left out.
\<close>

record PlanLimits =
  prospects :: string
  agents :: string
  campaigns :: string

record Plan =
  plan_id :: string
  features :: "(string \<times> bool) list"
  limits :: PlanLimits

definition plans :: "Plan list" where
  "plans =
     [\<lparr>plan_id = ''free'',
       features =
         [(Busca_Google, True),
          (Busca_Instagram, True),
          (Filtros_Avancados, False),
          (Instagram_Direct, True),
          (WhatsApp_Simulacao, False),
          (WhatsApp_API_Oficial, False),
          (Dashboard_Basico, True),
          (Historico_Interacoes, True),
          (Relatorios_Funil, False),
          (Comparativo_Campanhas, False),
          (Integracao_CRM, False),
          (Suporte_Email, False),
          (Suporte_Prioritario, False),
          (SSO_Single_Sign_On, False)],
       limits = \<lparr>prospects = ''50/m'' @ [e_circumflex] @ ''s'', agents = ''1 Agente'',
         campaigns = ''1 Campanha''\<rparr>\<rparr>,
      \<lparr>plan_id = ''starter'',
       features =
         [(Busca_Google, True),
          (Busca_Instagram, True),
          (Filtros_Avancados, True),
          (Instagram_Direct, True),
          (WhatsApp_Simulacao, True),
          (WhatsApp_API_Oficial, False),
          (Dashboard_Basico, True),
          (Historico_Interacoes, True),
          (Relatorios_Funil, True),
          (Comparativo_Campanhas, False),
          (Integracao_CRM, False),
          (Suporte_Email, True),
          (Suporte_Prioritario, False),
          (SSO_Single_Sign_On, False)],
       limits = \<lparr>prospects = ''500/m'' @ [e_circumflex] @ ''s'', agents = ''1 Agente'',
         campaigns = ''3 Campanhas''\<rparr>\<rparr>,
      \<lparr>plan_id = ''pro'',
       features =
         [(Busca_Google, True),
          (Busca_Instagram, True),
          (Filtros_Avancados, True),
          (Instagram_Direct, True),
          (WhatsApp_Simulacao, True),
          (WhatsApp_API_Oficial, True),
          (Dashboard_Basico, True),
          (Historico_Interacoes, True),
          (Relatorios_Funil, True),
          (Comparativo_Campanhas, True),
          (Integracao_CRM, True),
          (Suporte_Email, True),
          (Suporte_Prioritario, False),
          (SSO_Single_Sign_On, False)],
       limits = \<lparr>prospects = ''2.000/m'' @ [e_circumflex] @ ''s'', agents = ''5 Agentes'',
         campaigns = ''10 Campanhas''\<rparr>\<rparr>,
      \<lparr>plan_id = ''scale'',
       features =
         [(Busca_Google, True),
          (Busca_Instagram, True),
          (Filtros_Avancados, True),
          (Instagram_Direct, True),
          (WhatsApp_Simulacao, True),
          (WhatsApp_API_Oficial, True),
          (Dashboard_Basico, True),
          (Historico_Interacoes, True),
          (Relatorios_Funil, True),
          (Comparativo_Campanhas, True),
          (Integracao_CRM, True),
          (Suporte_Email, True),
          (Suporte_Prioritario, True),
          (SSO_Single_Sign_On, True)],
       limits = \<lparr>prospects = ''Ilimitado'', agents = ''Ilimitado'',
         campaigns = ''Ilimitado''\<rparr>\<rparr>]"

text \<open>\<open>plan?.features.find(...)\<close> and \<open>feature?.included || false\<close>: a plan or a feature
  that is not found gives \<open>false\<close>.\<close>

definition getPlanFeatureStatus :: "string \<Rightarrow> string \<Rightarrow> bool" where
  "getPlanFeatureStatus planId fname =
     (case find (\<lambda>p. plan_id p = planId) plans of
        None \<Rightarrow> False
      | Some plan \<Rightarrow>
          (case find (\<lambda>f. fst f = fname) (features plan) of
             None \<Rightarrow> False
           | Some feature \<Rightarrow> snd feature))"

text \<open>
  The quota a limit text stands for. The catalog writes a limit as a number followed by
  a unit (\<open>50/m\<close>..., \<open>5 Agentes\<close>), with a dot between the thousands, or as
  \<open>Ilimitado\<close>. No function of the client reads the number back; this reading is what
  the comparison of two tiers' quotas rests on.
\<close>

datatype quota = Limited nat | Unlimited

definition is_digit :: "char \<Rightarrow> bool" where
  "is_digit c = (48 \<le> (of_char c :: nat) \<and> (of_char c :: nat) \<le> 57)"

fun read_number :: "string \<Rightarrow> nat \<Rightarrow> nat" where
  "read_number [] acc = acc"
| "read_number (c # cs) acc =
     (if is_digit c then read_number cs (10 * acc + (of_char c - 48))
      else if c = CHR ''.'' then read_number cs acc
      else acc)"

definition quota_of_text :: "string \<Rightarrow> quota option" where
  "quota_of_text s =
     (if s = ''Ilimitado'' then Some Unlimited
      else case s of
             [] \<Rightarrow> None
           | c # cs \<Rightarrow> if is_digit c then Some (Limited (read_number s 0)) else None)"

text \<open>The quota of a tier, for one of the three limits (given by its field).\<close>

definition plan_quota :: "(PlanLimits \<Rightarrow> string) \<Rightarrow> string \<Rightarrow> quota option" where
  "plan_quota limit planId =
     (case find (\<lambda>p. plan_id p = planId) plans of
        None \<Rightarrow> None
      | Some plan \<Rightarrow> quota_of_text (limit (limits plan)))"

text \<open>The second quota is the same or larger, or unlimited.\<close>

fun quota_le :: "quota \<Rightarrow> quota \<Rightarrow> bool" where
  "quota_le q Unlimited = True"
| "quota_le Unlimited (Limited n) = False"
| "quota_le (Limited m) (Limited n) = (m \<le> n)"

section \<open>Scenario data\<close>

text \<open>A Free-tier snapshot with every quota used up: 50 of 50 leads, the one agent and
  the one campaign, and no feature switched on.\<close>

definition freeTierSnapshot :: UsageLimits where
  "freeTierSnapshot =
     \<lparr>plan_tier = ''free'',
      leads_limit = 50, leads_used = 50, leads_remaining = 0,
      agents_limit = 1, agents_used = 1, agents_remaining = 0,
      campaigns_limit = 1, campaigns_used = 1, campaigns_remaining = 0,
      whatsapp_enabled = False, whatsapp_official_api = False, advanced_filters = False,
      funnel_reports = False, campaign_comparison = False, crm_integration = False,
      priority_support = False, sso = False\<rparr>"

section \<open>Facts about the plan order\<close>

lemma planOrder_cases:
  "t \<in> set planOrder \<longleftrightarrow> t = ''free'' \<or> t = ''starter'' \<or> t = ''pro'' \<or> t = ''scale''"
  by (auto simp: planOrder_def)

lemma ordinal_values:
  "ordinal ''free'' = 0" "ordinal ''starter'' = 1" "ordinal ''pro'' = 2" "ordinal ''scale'' = 3"
  by (simp_all add: ordinal_def indexOf_def planOrder_def)

lemma getNextPlan_values:
  "getNextPlan ''free'' = Some ''starter''"
  "getNextPlan ''starter'' = Some ''pro''"
  "getNextPlan ''pro'' = Some ''scale''"
  "getNextPlan ''scale'' = None"
  by (simp_all add: getNextPlan_def indexOf_def planOrder_def)

lemma MINIMUM_PLAN_in_planOrder: "MINIMUM_PLAN_FOR_FEATURE r \<in> set planOrder"
  by (cases r) (simp_all add: planOrder_def)

lemma MINIMUM_PLAN_ordinal:
  "ordinal (MINIMUM_PLAN_FOR_FEATURE r) \<in> {1, 2, 3}"
  by (cases r) (simp_all add: ordinal_values)

lemma getSuggestedPlan_below_top:
  "getNextPlan t = Some n \<Longrightarrow>
     getSuggestedPlan t r =
       (if ordinal (MINIMUM_PLAN_FOR_FEATURE r) \<le> ordinal n then n
        else MINIMUM_PLAN_FOR_FEATURE r)"
  by (simp add: getSuggestedPlan_def ordinal_def)

section \<open>The suggested plan\<close>

text \<open>C5: the suggestion never regresses. For every gate reason and every current tier
  of the plan order, the ordinal of the suggested plan is at least the ordinal of the
  current tier and at least the ordinal of the minimum tier of the reason.\<close>

theorem suggestion_never_regresses:
  assumes "t \<in> set planOrder"
  shows "ordinal (getSuggestedPlan t r) \<ge> ordinal t
       \<and> ordinal (getSuggestedPlan t r) \<ge> ordinal (MINIMUM_PLAN_FOR_FEATURE r)"
proof -
  have m: "ordinal (MINIMUM_PLAN_FOR_FEATURE r) \<in> {1, 2, 3}"
    by (rule MINIMUM_PLAN_ordinal)
  from assms consider "t = ''free''" | "t = ''starter''" | "t = ''pro''" | "t = ''scale''"
    by (auto simp: planOrder_cases)
  then show ?thesis
  proof cases
    case 1
    then show ?thesis using m
      by (auto simp: getSuggestedPlan_below_top getNextPlan_values ordinal_values)
  next
    case 2
    then show ?thesis using m
      by (auto simp: getSuggestedPlan_below_top getNextPlan_values ordinal_values)
  next
    case 3
    then show ?thesis using m
      by (auto simp: getSuggestedPlan_below_top getNextPlan_values ordinal_values)
  next
    case 4
    then show ?thesis using m
      by (auto simp: getSuggestedPlan_def getNextPlan_values ordinal_values)
  qed
qed

theorem suggestion_never_regresses_witness:
  "''free'' \<in> set planOrder
   \<and> ordinal (getSuggestedPlan ''free'' Crm_integration) \<ge> ordinal ''free''
   \<and> ordinal (getSuggestedPlan ''free'' Crm_integration)
       \<ge> ordinal (MINIMUM_PLAN_FOR_FEATURE Crm_integration)
   \<and> getSuggestedPlan ''free'' Crm_integration = ''pro''"
  using suggestion_never_regresses [of "''free''" Crm_integration]
  by (simp add: planOrder_def getSuggestedPlan_def getNextPlan_values indexOf_def)

text \<open>C1, as the claim states it, fails at the top tier: \<open>scale\<close> has no tier above it,
  and for the reason \<open>leads_limit\<close> the plan returned there is neither the minimum tier
  of the reason (\<open>starter\<close>) nor a tier above the current one.\<close>

theorem suggested_plan_at_top_counterexample:
  "\<not> (getSuggestedPlan ''scale'' Leads_limit = MINIMUM_PLAN_FOR_FEATURE Leads_limit
      \<or> getNextPlan ''scale'' = Some (getSuggestedPlan ''scale'' Leads_limit))"
  by (simp add: getSuggestedPlan_def getNextPlan_values)

text \<open>C1, amended: for every gate reason and every current tier below \<open>scale\<close>, the
  current tier has a tier immediately above it, and \<open>getSuggestedPlan\<close> returns whichever
  of that tier and the minimum tier of the reason has the higher ordinal; for \<open>pro\<close> and
  \<open>priority_support\<close> it returns \<open>scale\<close>. At \<open>scale\<close> it returns \<open>scale\<close>.\<close>

theorem suggested_plan_higher_of_minimum_and_next:
  "(t \<in> set planOrder \<and> t \<noteq> ''scale'' \<longrightarrow>
      (\<exists>n. getNextPlan t = Some n \<and> ordinal n = ordinal t + 1
         \<and> getSuggestedPlan t r \<in> {n, MINIMUM_PLAN_FOR_FEATURE r}
         \<and> ordinal (getSuggestedPlan t r)
             = max (ordinal n) (ordinal (MINIMUM_PLAN_FOR_FEATURE r))))
   \<and> getSuggestedPlan ''pro'' Priority_support = ''scale''
   \<and> getSuggestedPlan ''scale'' r = ''scale''"
proof (intro conjI impI)
  assume "t \<in> set planOrder \<and> t \<noteq> ''scale''"
  then consider "t = ''free''" | "t = ''starter''" | "t = ''pro''"
    by (auto simp: planOrder_cases)
  then show "\<exists>n. getNextPlan t = Some n \<and> ordinal n = ordinal t + 1
         \<and> getSuggestedPlan t r \<in> {n, MINIMUM_PLAN_FOR_FEATURE r}
         \<and> ordinal (getSuggestedPlan t r)
             = max (ordinal n) (ordinal (MINIMUM_PLAN_FOR_FEATURE r))"
    by cases (auto simp: getSuggestedPlan_below_top getNextPlan_values ordinal_values)
next
  show "getSuggestedPlan ''pro'' Priority_support = ''scale''"
    by (simp add: getSuggestedPlan_below_top getNextPlan_values ordinal_values)
next
  show "getSuggestedPlan ''scale'' r = ''scale''"
    by (simp add: getSuggestedPlan_def getNextPlan_values)
qed

theorem suggested_plan_higher_witness:
  "''pro'' \<in> set planOrder \<and> ''pro'' \<noteq> ''scale''
   \<and> getNextPlan ''pro'' = Some ''scale''
   \<and> MINIMUM_PLAN_FOR_FEATURE Whatsapp = ''starter''
   \<and> getSuggestedPlan ''pro'' Whatsapp = ''scale''
   \<and> ordinal (getSuggestedPlan ''pro'' Whatsapp) = max (ordinal ''scale'') (ordinal ''starter'')"
  using suggested_plan_higher_of_minimum_and_next [of "''pro''" Whatsapp]
  by (auto simp: planOrder_def getNextPlan_values ordinal_values)

text \<open>C6: the top tier is terminal. \<open>getNextPlan\<close> at \<open>scale\<close> returns null, and for
  every gate reason \<open>getSuggestedPlan\<close> at \<open>scale\<close> returns \<open>scale\<close>.\<close>

theorem top_tier_terminal:
  "getNextPlan ''scale'' = None \<and> getSuggestedPlan ''scale'' r = ''scale''"
  by (simp add: getSuggestedPlan_def getNextPlan_values)

section \<open>The quota gate\<close>

text \<open>C3: for every loaded usage snapshot, each quota check (leads, agents, campaigns,
  both the plain check and the one that raises the modal) reports quota available if and
  only if the limit is the unlimited sentinel \<open>-1\<close> or used is strictly less than the
  limit. With limit 500 and used 500 there is no quota, with used 499 there is, and with an
  unlimited limit there is for any used value.\<close>

theorem quota_available_iff:
  "(canCreateLead (Some u) \<longleftrightarrow> leads_limit u = - 1 \<or> leads_used u < leads_limit u)
   \<and> (canCreateAgent (Some u) \<longleftrightarrow> agents_limit u = - 1 \<or> agents_used u < agents_limit u)
   \<and> (canCreateCampaign (Some u) \<longleftrightarrow>
        campaigns_limit u = - 1 \<or> campaigns_used u < campaigns_limit u)
   \<and> (fst (checkLeadsLimit (Some u) st) \<longleftrightarrow>
        leads_limit u = - 1 \<or> leads_used u < leads_limit u)
   \<and> (fst (checkAgentsLimit (Some u) st) \<longleftrightarrow>
        agents_limit u = - 1 \<or> agents_used u < agents_limit u)
   \<and> (fst (checkCampaignsLimit (Some u) st) \<longleftrightarrow>
        campaigns_limit u = - 1 \<or> campaigns_used u < campaigns_limit u)
   \<and> \<not> canCreateLead (Some (u\<lparr>leads_limit := 500, leads_used := 500\<rparr>))
   \<and> canCreateLead (Some (u\<lparr>leads_limit := 500, leads_used := 499\<rparr>))
   \<and> canCreateLead (Some (u\<lparr>leads_limit := - 1, leads_used := n\<rparr>))
   \<and> \<not> fst (checkLeadsLimit (Some (u\<lparr>leads_limit := 500, leads_used := 500\<rparr>)) st)
   \<and> fst (checkLeadsLimit (Some (u\<lparr>leads_limit := 500, leads_used := 499\<rparr>)) st)
   \<and> fst (checkLeadsLimit (Some (u\<lparr>leads_limit := - 1, leads_used := n\<rparr>)) st)"
  by (simp add: canCreateLead_def canCreateAgent_def canCreateCampaign_def
      checkLeadsLimit_def checkAgentsLimit_def checkCampaignsLimit_def)

text \<open>C8: while the usage snapshot has not loaded (\<open>usageLimits\<close> is null), every gate
  check of the hook returns true, for every argument, and leaves the store as it is: the
  three quota checks, the three limit checks that raise the modal, \<open>checkFeature\<close> and
  the three checks built on it.\<close>

theorem not_loaded_fails_open:
  "canCreateLead None \<and> canCreateAgent None \<and> canCreateCampaign None
   \<and> checkLeadsLimit None st = (True, st)
   \<and> checkAgentsLimit None st = (True, st)
   \<and> checkCampaignsLimit None st = (True, st)
   \<and> checkFeature None feature fname plan st = (True, st)
   \<and> checkWhatsApp None st = (True, st)
   \<and> checkWhatsAppOfficial None st = (True, st)
   \<and> checkAdvancedFilters None st = (True, st)"
  by (simp add: canCreateLead_def canCreateAgent_def canCreateCampaign_def
      checkLeadsLimit_def checkAgentsLimit_def checkCampaignsLimit_def checkFeature_def
      checkWhatsApp_def checkWhatsAppOfficial_def checkAdvancedFilters_def)

text \<open>What the gate stores when it blocks: used has reached the limit, and the store
  holds an open modal whose context carries the quota's reason, used as the current value
  and the limit as the limit value. The suggested plan is the literal of the helper: for
  leads and for campaigns it is the entry of \<open>MINIMUM_PLAN_FOR_FEATURE\<close> for the
  reason, for agents it is \<open>pro\<close>.\<close>

lemma blocked_quota_context:
  "(\<not> fst (checkLeadsLimit (Some u) st) \<longrightarrow>
      leads_used u \<ge> leads_limit u
      \<and> snd (checkLeadsLimit (Some u) st) =
          st\<lparr>isOpen := True, modalContext := Some
            \<lparr>reason = Leads_limit, currentValue = Some (leads_used u),
             limitValue = Some (leads_limit u), featureName = None,
             suggestedPlan = Some (MINIMUM_PLAN_FOR_FEATURE Leads_limit),
             customMessage = None\<rparr>\<rparr>)
   \<and> (\<not> fst (checkAgentsLimit (Some u) st) \<longrightarrow>
      agents_used u \<ge> agents_limit u
      \<and> snd (checkAgentsLimit (Some u) st) =
          st\<lparr>isOpen := True, modalContext := Some
            \<lparr>reason = Agents_limit, currentValue = Some (agents_used u),
             limitValue = Some (agents_limit u), featureName = None,
             suggestedPlan = Some ''pro'',
             customMessage = None\<rparr>\<rparr>)
   \<and> (\<not> fst (checkCampaignsLimit (Some u) st) \<longrightarrow>
      campaigns_used u \<ge> campaigns_limit u
      \<and> snd (checkCampaignsLimit (Some u) st) =
          st\<lparr>isOpen := True, modalContext := Some
            \<lparr>reason = Campaigns_limit, currentValue = Some (campaigns_used u),
             limitValue = Some (campaigns_limit u), featureName = None,
             suggestedPlan = Some (MINIMUM_PLAN_FOR_FEATURE Campaigns_limit),
             customMessage = None\<rparr>\<rparr>)"
  by (simp add: checkLeadsLimit_def checkAgentsLimit_def checkCampaignsLimit_def
      showLeadsLimitReached_def showAgentsLimitReached_def showCampaignsLimitReached_def)

text \<open>The Free-tier scenario: with 50 of 50 leads used the leads check blocks with reason
  \<open>leads_limit\<close>, current value 50, limit value 50 and suggested plan \<open>starter\<close>.\<close>

lemma free_tier_leads_blocked:
  "plan_tier freeTierSnapshot = ''free''
   \<and> leads_limit freeTierSnapshot = 50 \<and> leads_used freeTierSnapshot = 50
   \<and> \<not> fst (checkLeadsLimit (Some freeTierSnapshot) initialUpgradeState)
   \<and> snd (checkLeadsLimit (Some freeTierSnapshot) initialUpgradeState) =
        \<lparr>isOpen = True, modalContext = Some
          \<lparr>reason = Leads_limit, currentValue = Some 50, limitValue = Some 50,
           featureName = None, suggestedPlan = Some ''starter'', customMessage = None\<rparr>\<rparr>"
  using blocked_quota_context [of freeTierSnapshot initialUpgradeState]
  by (simp add: freeTierSnapshot_def initialUpgradeState_def checkLeadsLimit_def)

text \<open>C2: for every metered quota the context of a blocked gate should carry the entry of
  the reason-to-tier table for the quota's reason. The code departs from this for the
  agents quota. On the Free-tier snapshot (1 of 1 agents used) the agents check blocks and
  stores the suggested plan \<open>pro\<close>, while the table entry for \<open>agents_limit\<close> is
  \<open>starter\<close>; the interceptor, on a 403 response whose message names the agents limit,
  stores the table entry for the same reason.\<close>

theorem agents_gate_departs_from_table:
  "fst (checkAgentsLimit (Some freeTierSnapshot) initialUpgradeState) = False
   \<and> map_option reason
        (modalContext (snd (checkAgentsLimit (Some freeTierSnapshot) initialUpgradeState)))
       = Some Agents_limit
   \<and> map_option suggestedPlan
        (modalContext (snd (checkAgentsLimit (Some freeTierSnapshot) initialUpgradeState)))
       = Some (Some ''pro'')
   \<and> MINIMUM_PLAN_FOR_FEATURE Agents_limit = ''starter''
   \<and> map_option suggestedPlan
        (modalContext (on_forbidden (Some ''Limite de agentes atingido'') initialUpgradeState))
       = Some (Some ''starter'')"
proof -
  have "detectUpgradeReason ''Limite de agentes atingido'' = Agents_limit"
    by code_simp
  then show ?thesis
    by (simp add: checkAgentsLimit_def freeTierSnapshot_def showAgentsLimitReached_def
        on_forbidden_def or_else_def openUpgradeModal_def)
qed

text \<open>C4, as the claim states it, fails on the quota check: with limit 500 and used 500
  the check reports no quota, also on a snapshot whose \<open>leads_remaining\<close> says that 500
  leads are left. The snapshot has no field for purchased quota.\<close>

theorem addon_not_counted_counterexample:
  "\<not> canCreateLead (Some (freeTierSnapshot
        \<lparr>plan_tier := ''starter'', leads_limit := 500, leads_used := 500,
         leads_remaining := 500\<rparr>))"
  by (simp add: canCreateLead_def freeTierSnapshot_def)

text \<open>C4, amended: the quota check of the client has no add-on term. It reads the limit
  and the used count of the snapshot and nothing else, so two snapshots that agree on
  both get the same answer; with limit 500 and used 500 it reports no quota whatever
  \<open>leads_remaining\<close> says, and purchased quota counts once the reported limit includes
  it (limit 500 + 500, used 500: quota available). The remaining amount is not computed by
  the client: the lead-packages hook returns the server's \<open>total_remaining\<close> and
  \<open>is_limit_reached\<close> as they come.\<close>

theorem quota_check_reads_limit_and_used_only:
  "(leads_limit u = leads_limit v \<and> leads_used u = leads_used v \<longrightarrow>
      canCreateLead (Some u) = canCreateLead (Some v)
      \<and> fst (checkLeadsLimit (Some u) st) = fst (checkLeadsLimit (Some v) st'))
   \<and> \<not> canCreateLead (Some (u\<lparr>leads_limit := 500, leads_used := 500, leads_remaining := k\<rparr>))
   \<and> canCreateLead (Some (u\<lparr>leads_limit := 500 + 500, leads_used := 500\<rparr>))
   \<and> remainingLeads (Some s) = total_remaining s
   \<and> isLimitReached (Some s) = is_limit_reached s"
  by (simp add: canCreateLead_def checkLeadsLimit_def remainingLeads_def isLimitReached_def)

theorem quota_check_reads_limit_and_used_only_witness:
  "leads_limit (freeTierSnapshot\<lparr>leads_remaining := 500\<rparr>) = leads_limit freeTierSnapshot
   \<and> leads_used (freeTierSnapshot\<lparr>leads_remaining := 500\<rparr>) = leads_used freeTierSnapshot
   \<and> canCreateLead (Some (freeTierSnapshot\<lparr>leads_remaining := 500\<rparr>))
       = canCreateLead (Some freeTierSnapshot)
   \<and> \<not> canCreateLead (Some freeTierSnapshot)"
  using quota_check_reads_limit_and_used_only
    [of "freeTierSnapshot\<lparr>leads_remaining := 500\<rparr>" freeTierSnapshot]
  by (simp add: freeTierSnapshot_def canCreateLead_def)

section \<open>The upgrade modal\<close>

lemma MINIMUM_PLAN_nonempty: "MINIMUM_PLAN_FOR_FEATURE r \<noteq> []"
  by (cases r) simp_all

text \<open>C10: after any call to \<open>openUpgradeModal\<close> the stored context has a defined,
  non-empty suggested plan; when the caller omits it, it is the entry of
  \<open>MINIMUM_PLAN_FOR_FEATURE\<close> for the context's reason. The call made by the HTTP
  interceptor on a 403 response stores the table entry for the reason it detected.\<close>

theorem modal_context_has_suggested_plan:
  "(\<exists>c p. modalContext (openUpgradeModal ctx st) = Some c
        \<and> suggestedPlan c = Some p \<and> p \<noteq> [])
   \<and> modalContext (openUpgradeModal (ctx\<lparr>suggestedPlan := None\<rparr>) st)
       = Some (ctx\<lparr>suggestedPlan := Some (MINIMUM_PLAN_FOR_FEATURE (reason ctx))\<rparr>)
   \<and> (\<exists>c. modalContext (on_forbidden body_detail st) = Some c
        \<and> suggestedPlan c = Some (MINIMUM_PLAN_FOR_FEATURE (reason c)))"
  by (auto simp: openUpgradeModal_def on_forbidden_def or_else_def Let_def
      MINIMUM_PLAN_nonempty split: option.splits)

section \<open>Classification of a server rejection\<close>

lemma starts_with_prefix: "starts_with s k \<longleftrightarrow> prefix k s"
  by (induction s k rule: starts_with.induct) auto

lemma includes_str_sublist: "includes_str s k \<longleftrightarrow> sublist k s"
  by (induction s) (simp_all add: starts_with_prefix sublist_Cons_right)

lemma detect_loop_find:
  "detect_loop es m =
     (case find (\<lambda>e. includes_str m (fst e)) es of None \<Rightarrow> General | Some e \<Rightarrow> snd e)"
  by (induction es m rule: detect_loop.induct) simp_all

lemma keywords_lower_case:
  "kw \<in> fst ` set ERROR_TO_UPGRADE_REASON \<Longrightarrow> toLowerCase kw = kw"
  unfolding ERROR_TO_UPGRADE_REASON_def
  by (auto simp: toLowerCase_def toLowerChar_def char_of_def bit_0)

lemma no_General_keyword: "General \<notin> snd ` set ERROR_TO_UPGRADE_REASON"
  by (simp add: ERROR_TO_UPGRADE_REASON_def)

lemma occurs_keyword:
  "kw \<in> fst ` set ERROR_TO_UPGRADE_REASON \<Longrightarrow>
     occurs_ignoring_case kw m \<longleftrightarrow> includes_str (toLowerCase m) kw"
  by (simp add: occurs_ignoring_case_def includes_str_sublist keywords_lower_case)

lemma detect_first_match:
  "detectUpgradeReason m =
     (case find (\<lambda>e. occurs_ignoring_case (fst e) m) ERROR_TO_UPGRADE_REASON of
        None \<Rightarrow> General
      | Some e \<Rightarrow> snd e)"
proof -
  have "find (\<lambda>e. occurs_ignoring_case (fst e) m) ERROR_TO_UPGRADE_REASON
      = find (\<lambda>e. includes_str (toLowerCase m) (fst e)) ERROR_TO_UPGRADE_REASON"
    by (rule find_cong) (simp_all add: occurs_keyword)
  then show ?thesis
    by (simp add: detectUpgradeReason_def detect_loop_find)
qed

lemma capitals_lowered:
  "toLowerCase ''ABCDEFGHIJKLMNOPQRSTUVWXYZ'' = ''abcdefghijklmnopqrstuvwxyz''"
  "toLowerCase
       [CHR 0xC0, CHR 0xC1, CHR 0xC2, CHR 0xC3, CHR 0xC4, CHR 0xC5, CHR 0xC6, CHR 0xC7,
        CHR 0xC8, CHR 0xC9, CHR 0xCA, CHR 0xCB, CHR 0xCC, CHR 0xCD, CHR 0xCE, CHR 0xCF,
        CHR 0xD0, CHR 0xD1, CHR 0xD2, CHR 0xD3, CHR 0xD4, CHR 0xD5, CHR 0xD6, CHR 0xD8,
        CHR 0xD9, CHR 0xDA, CHR 0xDB, CHR 0xDC, CHR 0xDD, CHR 0xDE]
     = [CHR 0xE0, CHR 0xE1, CHR 0xE2, CHR 0xE3, CHR 0xE4, CHR 0xE5, CHR 0xE6, CHR 0xE7,
        CHR 0xE8, CHR 0xE9, CHR 0xEA, CHR 0xEB, CHR 0xEC, CHR 0xED, CHR 0xEE, CHR 0xEF,
        CHR 0xF0, CHR 0xF1, CHR 0xF2, CHR 0xF3, CHR 0xF4, CHR 0xF5, CHR 0xF6, CHR 0xF8,
        CHR 0xF9, CHR 0xFA, CHR 0xFB, CHR 0xFC, CHR 0xFD, CHR 0xFE]"
  "toLowerCase (''az 09 .,;:-_!?()@'' @ [CHR 0xD7, CHR 0xDF, CHR 0xFF])
     = ''az 09 .,;:-_!?()@'' @ [CHR 0xD7, CHR 0xDF, CHR 0xFF]"
  by (simp_all add: toLowerCase_def toLowerChar_def char_of_def bit_0)

lemma capital_keywords:
  "map (\<lambda>e. detectUpgradeReason (map toUpperChar (fst e))) ERROR_TO_UPGRADE_REASON
     = map snd ERROR_TO_UPGRADE_REASON"
  by (simp add: ERROR_TO_UPGRADE_REASON_def detectUpgradeReason_def toLowerCase_def
      toLowerChar_def toUpperChar_def char_of_def bit_0)

text \<open>C7: the classification of a server message is a case-insensitive substring match
  against the keyword table. It returns the reason of the first entry of the table whose
  keyword occurs in the message, letter case ignored, and \<open>general\<close> when there is
  none; so it returns \<open>general\<close> if and only if no keyword of the table occurs in the
  message, and for every message in which \<open>limite de agentes\<close> occurs and neither of
  the two keywords before it in the table does, it returns \<open>agents_limit\<close>. Every
  keyword written in capitals is classified as its own entry says, and lowering the case
  maps each capital letter, plain or accented, to its small letter and leaves the other
  characters alone.\<close>

theorem classification_by_keyword:
  "detectUpgradeReason m =
     (case find (\<lambda>e. occurs_ignoring_case (fst e) m) ERROR_TO_UPGRADE_REASON of
        None \<Rightarrow> General
      | Some e \<Rightarrow> snd e)
   \<and> (detectUpgradeReason m = General \<longleftrightarrow>
      \<not> (\<exists>kw \<in> fst ` set ERROR_TO_UPGRADE_REASON. occurs_ignoring_case kw m))
   \<and> (occurs_ignoring_case ''limite de agentes'' m
        \<and> \<not> occurs_ignoring_case ''limite de leads'' m
        \<and> \<not> occurs_ignoring_case ''limite de prospects'' m
      \<longrightarrow> detectUpgradeReason m = Agents_limit)
   \<and> map (\<lambda>e. detectUpgradeReason (map toUpperChar (fst e))) ERROR_TO_UPGRADE_REASON
       = map snd ERROR_TO_UPGRADE_REASON
   \<and> toLowerCase ''ABCDEFGHIJKLMNOPQRSTUVWXYZ'' = ''abcdefghijklmnopqrstuvwxyz''
   \<and> toLowerCase
         [CHR 0xC0, CHR 0xC1, CHR 0xC2, CHR 0xC3, CHR 0xC4, CHR 0xC5, CHR 0xC6, CHR 0xC7,
          CHR 0xC8, CHR 0xC9, CHR 0xCA, CHR 0xCB, CHR 0xCC, CHR 0xCD, CHR 0xCE, CHR 0xCF,
          CHR 0xD0, CHR 0xD1, CHR 0xD2, CHR 0xD3, CHR 0xD4, CHR 0xD5, CHR 0xD6, CHR 0xD8,
          CHR 0xD9, CHR 0xDA, CHR 0xDB, CHR 0xDC, CHR 0xDD, CHR 0xDE]
       = [CHR 0xE0, CHR 0xE1, CHR 0xE2, CHR 0xE3, CHR 0xE4, CHR 0xE5, CHR 0xE6, CHR 0xE7,
          CHR 0xE8, CHR 0xE9, CHR 0xEA, CHR 0xEB, CHR 0xEC, CHR 0xED, CHR 0xEE, CHR 0xEF,
          CHR 0xF0, CHR 0xF1, CHR 0xF2, CHR 0xF3, CHR 0xF4, CHR 0xF5, CHR 0xF6, CHR 0xF8,
          CHR 0xF9, CHR 0xFA, CHR 0xFB, CHR 0xFC, CHR 0xFD, CHR 0xFE]
   \<and> toLowerCase (''az 09 .,;:-_!?()@'' @ [CHR 0xD7, CHR 0xDF, CHR 0xFF])
       = ''az 09 .,;:-_!?()@'' @ [CHR 0xD7, CHR 0xDF, CHR 0xFF]"
proof (intro conjI impI)
  show first: "detectUpgradeReason m =
     (case find (\<lambda>e. occurs_ignoring_case (fst e) m) ERROR_TO_UPGRADE_REASON of
        None \<Rightarrow> General
      | Some e \<Rightarrow> snd e)"
    by (rule detect_first_match)
  show "detectUpgradeReason m = General \<longleftrightarrow>
      \<not> (\<exists>kw \<in> fst ` set ERROR_TO_UPGRADE_REASON. occurs_ignoring_case kw m)"
  proof (cases "find (\<lambda>e. occurs_ignoring_case (fst e) m) ERROR_TO_UPGRADE_REASON")
    case None
    then have "detectUpgradeReason m = General"
      by (simp add: detect_first_match)
    moreover from None
    have "\<not> (\<exists>kw \<in> fst ` set ERROR_TO_UPGRADE_REASON. occurs_ignoring_case kw m)"
      by (auto simp: find_None_iff)
    ultimately show ?thesis by simp
  next
    case (Some e)
    then have "e \<in> set ERROR_TO_UPGRADE_REASON" "occurs_ignoring_case (fst e) m"
      by (auto simp: find_Some_iff)
    moreover from this no_General_keyword have "snd e \<noteq> General"
      by force
    moreover from Some have "detectUpgradeReason m = snd e"
      by (simp add: detect_first_match)
    ultimately show ?thesis
      by force
  qed
next
  assume a: "occurs_ignoring_case ''limite de agentes'' m
        \<and> \<not> occurs_ignoring_case ''limite de leads'' m
        \<and> \<not> occurs_ignoring_case ''limite de prospects'' m"
  have l: "toLowerCase ''limite de agentes'' = ''limite de agentes''"
      "toLowerCase ''limite de leads'' = ''limite de leads''"
      "toLowerCase ''limite de prospects'' = ''limite de prospects''"
    by code_simp+
  from a l have "includes_str (toLowerCase m) ''limite de agentes''"
      "\<not> includes_str (toLowerCase m) ''limite de leads''"
      "\<not> includes_str (toLowerCase m) ''limite de prospects''"
    by (simp_all add: occurs_ignoring_case_def includes_str_sublist)
  then show "detectUpgradeReason m = Agents_limit"
    by (simp add: detectUpgradeReason_def ERROR_TO_UPGRADE_REASON_def)
qed (rule capital_keywords capitals_lowered)+

theorem classification_by_keyword_witness:
  "occurs_ignoring_case ''limite de agentes'' ''Limite de Agentes atingido''
   \<and> \<not> occurs_ignoring_case ''limite de leads'' ''Limite de Agentes atingido''
   \<and> \<not> occurs_ignoring_case ''limite de prospects'' ''Limite de Agentes atingido''
   \<and> detectUpgradeReason ''Limite de Agentes atingido'' = Agents_limit"
proof -
  have "occurs_ignoring_case ''limite de agentes'' ''Limite de Agentes atingido''
   \<and> \<not> occurs_ignoring_case ''limite de leads'' ''Limite de Agentes atingido''
   \<and> \<not> occurs_ignoring_case ''limite de prospects'' ''Limite de Agentes atingido''"
    by code_simp
  with classification_by_keyword [of "''Limite de Agentes atingido''"] show ?thesis
    by blast
qed

section \<open>Monotonicity of the plan catalog\<close>

lemma plan_ids: "map plan_id plans = planOrder"
  by (simp add: plans_def planOrder_def)

lemma increasing_tier_pairs:
  assumes "t1 \<in> set planOrder \<and> t2 \<in> set planOrder \<and> ordinal t1 < ordinal t2"
  shows "(t1 = ''free'' \<and> t2 = ''starter'') \<or> (t1 = ''free'' \<and> t2 = ''pro'')
    \<or> (t1 = ''free'' \<and> t2 = ''scale'') \<or> (t1 = ''starter'' \<and> t2 = ''pro'')
    \<or> (t1 = ''starter'' \<and> t2 = ''scale'') \<or> (t1 = ''pro'' \<and> t2 = ''scale'')"
proof -
  from assms have c1: "t1 = ''free'' \<or> t1 = ''starter'' \<or> t1 = ''pro'' \<or> t1 = ''scale''"
    and c2: "t2 = ''free'' \<or> t2 = ''starter'' \<or> t2 = ''pro'' \<or> t2 = ''scale''"
    and lt: "ordinal t1 < ordinal t2"
    by (simp_all add: planOrder_cases)
  show ?thesis
    using c1 c2 lt by (elim disjE) (simp_all add: ordinal_values)
qed


lemma find_flag_mono:
  assumes "list_all (\<lambda>p. snd p \<longrightarrow>
      (case find (\<lambda>q. fst q = fst p) fs2 of None \<Rightarrow> False | Some q \<Rightarrow> snd q)) fs1"
    and "case find (\<lambda>q. fst q = f) fs1 of None \<Rightarrow> False | Some q \<Rightarrow> snd q"
  shows "case find (\<lambda>q. fst q = f) fs2 of None \<Rightarrow> False | Some q \<Rightarrow> snd q"
proof -
  from assms(2) obtain p where p: "find (\<lambda>q. fst q = f) fs1 = Some p" "snd p"
    by (auto split: option.splits)
  then have "p \<in> set fs1" "fst p = f"
    by (auto simp: find_Some_iff)
  with assms(1) p(2) show ?thesis
    by (auto simp: list_all_iff)
qed

lemma plan_found:
  "find (\<lambda>p. plan_id p = ''free'') plans = Some (plans ! 0)"
  "find (\<lambda>p. plan_id p = ''starter'') plans = Some (plans ! 1)"
  "find (\<lambda>p. plan_id p = ''pro'') plans = Some (plans ! 2)"
  "find (\<lambda>p. plan_id p = ''scale'') plans = Some (plans ! 3)"
  by (simp_all add: plans_def)

lemma flags_checked:
  "list_all (\<lambda>p. snd p \<longrightarrow>
      (case find (\<lambda>q. fst q = fst p) (features (plans ! 1)) of None \<Rightarrow> False | Some q \<Rightarrow> snd q))
     (features (plans ! 0))"
  "list_all (\<lambda>p. snd p \<longrightarrow>
      (case find (\<lambda>q. fst q = fst p) (features (plans ! 2)) of None \<Rightarrow> False | Some q \<Rightarrow> snd q))
     (features (plans ! 1))"
  "list_all (\<lambda>p. snd p \<longrightarrow>
      (case find (\<lambda>q. fst q = fst p) (features (plans ! 3)) of None \<Rightarrow> False | Some q \<Rightarrow> snd q))
     (features (plans ! 2))"
  by (simp_all add: plans_def)

lemma feature_steps:
  "getPlanFeatureStatus ''free'' f \<Longrightarrow> getPlanFeatureStatus ''starter'' f"
  "getPlanFeatureStatus ''starter'' f \<Longrightarrow> getPlanFeatureStatus ''pro'' f"
  "getPlanFeatureStatus ''pro'' f \<Longrightarrow> getPlanFeatureStatus ''scale'' f"
  unfolding getPlanFeatureStatus_def plan_found option.case
  by (rule find_flag_mono [OF flags_checked(1)], assumption,
      rule find_flag_mono [OF flags_checked(2)], assumption,
      rule find_flag_mono [OF flags_checked(3)], assumption)


lemma plan_quota_values:
  "plan_quota prospects ''free'' = Some (Limited 50)"
  "plan_quota prospects ''starter'' = Some (Limited 500)"
  "plan_quota prospects ''pro'' = Some (Limited 2000)"
  "plan_quota prospects ''scale'' = Some Unlimited"
  "plan_quota agents ''free'' = Some (Limited 1)"
  "plan_quota agents ''starter'' = Some (Limited 1)"
  "plan_quota agents ''pro'' = Some (Limited 5)"
  "plan_quota agents ''scale'' = Some Unlimited"
  "plan_quota campaigns ''free'' = Some (Limited 1)"
  "plan_quota campaigns ''starter'' = Some (Limited 3)"
  "plan_quota campaigns ''pro'' = Some (Limited 10)"
  "plan_quota campaigns ''scale'' = Some Unlimited"
  by code_simp+

text \<open>C9: the plan catalog is monotone. The catalog lists the tiers in the plan order,
  and for every pair of tiers \<open>t1 < t2\<close> of that order the entitlement of \<open>t2\<close> is
  never stricter than that of \<open>t1\<close>: every feature included at \<open>t1\<close> is included at
  \<open>t2\<close>, and each of the three quotas (prospects, agents, campaigns) of \<open>t2\<close> is the
  same or larger, or unlimited.\<close>

theorem catalog_monotone:
  "map plan_id plans = planOrder
   \<and> (t1 \<in> set planOrder \<and> t2 \<in> set planOrder \<and> ordinal t1 < ordinal t2 \<longrightarrow>
        (getPlanFeatureStatus t1 f \<longrightarrow> getPlanFeatureStatus t2 f)
      \<and> (\<exists>q1 q2. plan_quota prospects t1 = Some q1 \<and> plan_quota prospects t2 = Some q2
            \<and> quota_le q1 q2)
      \<and> (\<exists>q1 q2. plan_quota agents t1 = Some q1 \<and> plan_quota agents t2 = Some q2
            \<and> quota_le q1 q2)
      \<and> (\<exists>q1 q2. plan_quota campaigns t1 = Some q1 \<and> plan_quota campaigns t2 = Some q2
            \<and> quota_le q1 q2))"
proof (intro conjI impI)
  show "map plan_id plans = planOrder" by (rule plan_ids)
next
  assume a: "t1 \<in> set planOrder \<and> t2 \<in> set planOrder \<and> ordinal t1 < ordinal t2"
    and s: "getPlanFeatureStatus t1 f"
  from increasing_tier_pairs [OF a] s show "getPlanFeatureStatus t2 f"
    by (elim disjE conjE) (simp_all add: feature_steps)
next
  assume a: "t1 \<in> set planOrder \<and> t2 \<in> set planOrder \<and> ordinal t1 < ordinal t2"
  from increasing_tier_pairs [OF a] show "\<exists>q1 q2. plan_quota prospects t1 = Some q1
      \<and> plan_quota prospects t2 = Some q2 \<and> quota_le q1 q2"
    by (elim disjE conjE) (simp_all add: plan_quota_values)
next
  assume a: "t1 \<in> set planOrder \<and> t2 \<in> set planOrder \<and> ordinal t1 < ordinal t2"
  from increasing_tier_pairs [OF a] show "\<exists>q1 q2. plan_quota agents t1 = Some q1
      \<and> plan_quota agents t2 = Some q2 \<and> quota_le q1 q2"
    by (elim disjE conjE) (simp_all add: plan_quota_values)
next
  assume a: "t1 \<in> set planOrder \<and> t2 \<in> set planOrder \<and> ordinal t1 < ordinal t2"
  from increasing_tier_pairs [OF a] show "\<exists>q1 q2. plan_quota campaigns t1 = Some q1
      \<and> plan_quota campaigns t2 = Some q2 \<and> quota_le q1 q2"
    by (elim disjE conjE) (simp_all add: plan_quota_values)
qed

theorem catalog_monotone_witness:
  "''starter'' \<in> set planOrder \<and> ''pro'' \<in> set planOrder
   \<and> ordinal ''starter'' < ordinal ''pro''
   \<and> getPlanFeatureStatus ''starter'' Relatorios_Funil
   \<and> getPlanFeatureStatus ''pro'' Relatorios_Funil
   \<and> plan_quota prospects ''starter'' = Some (Limited 500)
   \<and> plan_quota prospects ''pro'' = Some (Limited 2000)
   \<and> plan_quota agents ''starter'' = Some (Limited 1)
   \<and> plan_quota agents ''pro'' = Some (Limited 5)"
proof -
  have h: "''starter'' \<in> set planOrder \<and> ''pro'' \<in> set planOrder
      \<and> ordinal ''starter'' < ordinal ''pro''"
    by (simp add: planOrder_def ordinal_def indexOf_def)
  have g: "getPlanFeatureStatus ''starter'' Relatorios_Funil"
    by (simp add: getPlanFeatureStatus_def plans_def)
  have q: "plan_quota prospects ''starter'' = Some (Limited 500)"
      "plan_quota prospects ''pro'' = Some (Limited 2000)"
      "plan_quota agents ''starter'' = Some (Limited 1)"
      "plan_quota agents ''pro'' = Some (Limited 5)"
    by code_simp+
  from catalog_monotone [of "''starter''" "''pro''" Relatorios_Funil] h g q
  show ?thesis by blast
qed

end
